theory Spec2Isabelle
  imports Complex_Main "HOL-Library.Log_Nat"
begin

section \<open>JavaScript numbers and the values the cart code coerces\<close>

text \<open>
  A JavaScript \<^verbatim>\<open>number\<close>. The code under study tests for \<^verbatim>\<open>NaN\<close> explicitly
  (\<^verbatim>\<open>isNaN(parsed)\<close>) and relies on the falsiness of \<^verbatim>\<open>0\<close> and \<^verbatim>\<open>NaN\<close>
  (\<^verbatim>\<open>item.quantity || 1\<close>), so both are values of the model, as are the two
  infinities. A finite number is a rational; what arithmetic and parsing produce is rounded
  to the nearest IEEE 754 double, so the finite numbers that the code computes are doubles.
  The sign of zero is not modelled.
\<close>

datatype jsnum = NaN | NegInf | Fin rat | PosInf

text \<open>
  The exponent of the binade of a positive rational: the \<open>e\<close> with
  \<open>2 ^ e \<le> a < 2 ^ (e + 1)\<close>.
\<close>

definition floor_log2 :: "rat \<Rightarrow> int" where
  "floor_log2 a =
     (if 1 \<le> a then bitlen \<lfloor>a\<rfloor> - 1 else - bitlen (\<lceil>1 / a\<rceil> - 1))"

text \<open>The nearest integer, a tie going to the even one.\<close>

definition round_half_even :: "rat \<Rightarrow> int" where
  "round_half_even y =
     (let f = \<lfloor>y\<rfloor>; d = y - of_int f
      in if d < 1 / 2 then f else if 1 / 2 < d then f + 1 else if even f then f else f + 1)"

text \<open>
  The double nearest to a rational (round to nearest, ties to even): 53 significant bits,
  the exponent not below \<open>-1022\<close> (below it the subnormal spacing \<open>2 ^ -1074\<close>), and
  an infinity once the rounded magnitude reaches \<open>2 ^ 1024\<close>.
\<close>

definition to_double :: "rat \<Rightarrow> jsnum" where
  "to_double x =
     (if x = 0 then Fin 0
      else
        let a = \<bar>x\<bar>;
            e = max (floor_log2 a) (- 1022);
            ulp = 2 powi (e - 52);
            r = of_int (round_half_even (a / ulp)) * ulp
        in if 2 powi 1024 \<le> r then (if x < 0 then NegInf else PosInf)
           else Fin (if x < 0 then - r else r))"

text \<open>\<^verbatim>\<open>isNaN(x)\<close> on a number.\<close>

fun isNaN :: "jsnum \<Rightarrow> bool" where
  "isNaN NaN = True"
| "isNaN _ = False"

text \<open>\<^verbatim>\<open>a === b\<close> on numbers: \<^verbatim>\<open>NaN\<close> equals nothing, itself included.\<close>

definition strict_eq :: "jsnum \<Rightarrow> jsnum \<Rightarrow> bool" where
  "strict_eq a b = (a \<noteq> NaN \<and> b \<noteq> NaN \<and> a = b)"

text \<open>\<^verbatim>\<open>a <= b\<close> on numbers: false as soon as one side is \<^verbatim>\<open>NaN\<close>.\<close>

fun js_le :: "jsnum \<Rightarrow> jsnum \<Rightarrow> bool" where
  "js_le NaN b = False"
| "js_le a NaN = False"
| "js_le NegInf b = True"
| "js_le a PosInf = True"
| "js_le (Fin x) (Fin y) = (x \<le> y)"
| "js_le PosInf b = False"
| "js_le (Fin x) NegInf = False"

text \<open>\<^verbatim>\<open>a + b\<close> on numbers: the exact sum, rounded to a double.\<close>

fun js_add :: "jsnum \<Rightarrow> jsnum \<Rightarrow> jsnum" where
  "js_add NaN b = NaN"
| "js_add a NaN = NaN"
| "js_add (Fin x) (Fin y) = to_double (x + y)"
| "js_add PosInf NegInf = NaN"
| "js_add NegInf PosInf = NaN"
| "js_add PosInf b = PosInf"
| "js_add a PosInf = PosInf"
| "js_add NegInf b = NegInf"
| "js_add a NegInf = NegInf"

text \<open>
  \<^verbatim>\<open>a * b\<close> on numbers: the exact product, rounded to a double; zero times an infinity
  is \<^verbatim>\<open>NaN\<close>.
\<close>

fun js_sign :: "jsnum \<Rightarrow> int" where
  "js_sign NaN = 0"
| "js_sign NegInf = - 1"
| "js_sign PosInf = 1"
| "js_sign (Fin x) = (if x < 0 then - 1 else if x = 0 then 0 else 1)"

fun js_mul :: "jsnum \<Rightarrow> jsnum \<Rightarrow> jsnum" where
  "js_mul NaN b = NaN"
| "js_mul a NaN = NaN"
| "js_mul (Fin x) (Fin y) = to_double (x * y)"
| "js_mul a b =
     (if js_sign a * js_sign b = 0 then NaN
      else if js_sign a * js_sign b < 0 then NegInf else PosInf)"

text \<open>\<^verbatim>\<open>Math.min(a, b)\<close>: \<^verbatim>\<open>NaN\<close> as soon as one argument is \<^verbatim>\<open>NaN\<close>.\<close>

definition Math_min :: "jsnum \<Rightarrow> jsnum \<Rightarrow> jsnum" where
  "Math_min a b = (if isNaN a \<or> isNaN b then NaN else if js_le a b then a else b)"

text \<open>
  A value of the TypeScript type \<^verbatim>\<open>string | number\<close>, the parameter type of
  \<^verbatim>\<open>ensureNumber\<close>. A property that may also be missing, \<^verbatim>\<open>undefined\<close> or
  \<^verbatim>\<open>null\<close> has type \<open>strnum option\<close>, with \<open>None\<close> for all three: the code reads
  such a property only through \<^verbatim>\<open>||\<close>, for which the three are the same falsy value.
  Booleans, arrays and objects in the place of a number are outside the declared types and
  are not modelled.
\<close>

datatype strnum = Str string | Num jsnum

text \<open>Truthiness: \<^verbatim>\<open>0\<close>, \<^verbatim>\<open>NaN\<close> and the empty string are falsy.\<close>

fun truthy :: "strnum \<Rightarrow> bool" where
  "truthy (Num n) = (n \<noteq> NaN \<and> n \<noteq> Fin 0)"
| "truthy (Str s) = (s \<noteq> [])"

text \<open>\<^verbatim>\<open>v || d\<close> for a property \<open>v\<close> that may be missing and a default \<open>d\<close>.\<close>

fun or_default :: "strnum option \<Rightarrow> strnum \<Rightarrow> strnum" where
  "or_default None d = d"
| "or_default (Some v) d = (if truthy v then v else d)"

text \<open>\<^verbatim>\<open>s || ''\<close> for a string property that may be missing.\<close>

fun or_empty :: "string option \<Rightarrow> string" where
  "or_empty None = []"
| "or_empty (Some s) = (if s \<noteq> [] then s else [])"

section \<open>parseFloat\<close>

text \<open>
  \<^verbatim>\<open>parseFloat\<close> as ECMAScript defines it: leading white space is skipped, then the
  longest prefix that is a \<^verbatim>\<open>StrDecimalLiteral\<close> is read (a sign, then either
  \<^verbatim>\<open>Infinity\<close> or digits with an optional fraction and an optional exponent);
  what follows the prefix is ignored, and the result is \<^verbatim>\<open>NaN\<close> when there is no
  such prefix. The value of the literal is rounded to a double. Strings are byte strings
  here, so only the ASCII white space characters are skipped.
\<close>

definition is_ws :: "char \<Rightarrow> bool" where
  "is_ws c = (of_char c \<in> {9, 10, 11, 12, 13, 32 :: nat})"

definition is_digit :: "char \<Rightarrow> bool" where
  "is_digit c = (48 \<le> (of_char c :: nat) \<and> (of_char c :: nat) \<le> 57)"

definition digits_val :: "string \<Rightarrow> nat" where
  "digits_val ds = foldl (\<lambda>acc c. 10 * acc + (of_char c - 48)) 0 ds"

text \<open>The exponent part \<^verbatim>\<open>e\<close>, sign, digits: \<open>0\<close> when the rest does not start with one.\<close>

definition exponent_of :: "string \<Rightarrow> int" where
  "exponent_of r =
     (case r of
        [] \<Rightarrow> 0
      | c # r1 \<Rightarrow>
          if c = CHR ''e'' \<or> c = CHR ''E'' then
            (case r1 of
               [] \<Rightarrow> 0
             | d # r2 \<Rightarrow>
                 if d = CHR ''-'' then - int (digits_val (takeWhile is_digit r2))
                 else if d = CHR ''+'' then int (digits_val (takeWhile is_digit r2))
                 else int (digits_val (takeWhile is_digit r1)))
          else 0)"

definition scale10 :: "rat \<Rightarrow> int \<Rightarrow> rat" where
  "scale10 m e = (if 0 \<le> e then m * 10 ^ nat e else m / 10 ^ nat (- e))"

definition unsigned_literal :: "string \<Rightarrow> jsnum" where
  "unsigned_literal s =
     (if take 8 s = ''Infinity'' then PosInf
      else
        let ip = takeWhile is_digit s;
            r1 = dropWhile is_digit s;
            dot = (r1 \<noteq> [] \<and> hd r1 = CHR ''.'');
            fp = (if dot then takeWhile is_digit (tl r1) else []);
            r2 = (if dot then dropWhile is_digit (tl r1) else r1)
        in if ip = [] \<and> fp = [] then NaN
           else to_double
                  (scale10 (of_nat (digits_val (ip @ fp)) / 10 ^ length fp) (exponent_of r2)))"

definition parseFloat :: "string \<Rightarrow> jsnum" where
  "parseFloat input =
     (let s = dropWhile is_ws input in
      case s of
        [] \<Rightarrow> NaN
      | c # r \<Rightarrow>
          if c = CHR ''-'' then js_mul (Fin (- 1)) (unsigned_literal r)
          else if c = CHR ''+'' then unsigned_literal r
          else unsigned_literal s)"

section \<open>src/app/lib/utils.ts\<close>

text \<open>
  \<^verbatim>\<open>ensureNumber(value: string | number): number\<close>: a string is parsed with
  \<^verbatim>\<open>parseFloat\<close> and becomes \<^verbatim>\<open>0\<close> when the result is \<^verbatim>\<open>NaN\<close>; a number
  is returned as it is.
\<close>

fun ensureNumber :: "strnum \<Rightarrow> jsnum" where
  "ensureNumber (Str s) = (let parsed = parseFloat s in if isNaN parsed then Fin 0 else parsed)"
| "ensureNumber (Num n) = n"

text \<open>
  \<^verbatim>\<open>interface CartItem\<close>: \<^verbatim>\<open>fileName\<close> and \<^verbatim>\<open>sellerId\<close> are optional. The field
  \<^verbatim>\<open>id\<close> is written \<open>id'\<close>, since \<open>id\<close> is the identity function of HOL.
\<close>

record CartItem =
  id' :: jsnum
  name :: string
  price :: jsnum
  quantity :: jsnum
  fileName :: "string option"
  stock :: jsnum
  sellerId :: "jsnum option"

text \<open>
  \<^verbatim>\<open>Partial<CartItem>\<close> as \<^verbatim>\<open>sanitizeCartItem\<close> reads it at run time: every property
  may be missing, and a numeric property may hold a string (the caller's data comes from
  forms, from the REST backend and from the persisted blob). Properties other than these
  seven are never read.
\<close>

record PartialCartItem =
  p_id :: "strnum option"
  p_name :: "string option"
  p_price :: "strnum option"
  p_quantity :: "strnum option"
  p_fileName :: "string option"
  p_stock :: "strnum option"
  p_sellerId :: "strnum option"

definition sanitizeCartItem :: "PartialCartItem \<Rightarrow> CartItem" where
  "sanitizeCartItem item =
     \<lparr> id' = ensureNumber (or_default (p_id item) (Num (Fin 0))),
       name = or_empty (p_name item),
       price = ensureNumber (or_default (p_price item) (Num (Fin 0))),
       quantity = ensureNumber (or_default (p_quantity item) (Num (Fin 1))),
       fileName = Some (or_empty (p_fileName item)),
       stock = ensureNumber (or_default (p_stock item) (Num (Fin 0))),
       sellerId = Some (ensureNumber (or_default (p_sellerId item) (Num (Fin 0)))) \<rparr>"

section \<open>The persisted blob\<close>

text \<open>
  The value that \<^verbatim>\<open>JSON.parse\<close> returns. An object is seen through the seven
  properties that \<^verbatim>\<open>sanitizeCartItem\<close> reads, each a string, a number or missing (a
  \<^verbatim>\<open>null\<close> property being the same as a missing one for \<^verbatim>\<open>||\<close>). The text layer
  of JSON belongs to the platform and is not modelled: the
  blob that \<^verbatim>\<open>JSON.stringify\<close> writes is represented by the value that
  \<^verbatim>\<open>JSON.parse\<close> reads back from it.
\<close>

datatype json =
    JNull
  | JBool bool
  | JNum rat
  | JStr string
  | JArr "json list"
  | JObj PartialCartItem

text \<open>
  What \<^verbatim>\<open>localStorage.getItem('cart')\<close> can hold: the empty string (falsy), a
  non-empty text that is not JSON, or the text of a JSON value.
\<close>

datatype blob = EmptyText | BadText | Text json

datatype error = SyntaxError | TypeError

text \<open>\<^verbatim>\<open>JSON.parse(savedCart)\<close>: throws a \<^verbatim>\<open>SyntaxError\<close> on a text that is not JSON.\<close>

fun JSON_parse :: "blob \<Rightarrow> error + json" where
  "JSON_parse (Text j) = Inr j"
| "JSON_parse BadText = Inl SyntaxError"
| "JSON_parse EmptyText = Inl SyntaxError"

text \<open>
  How \<^verbatim>\<open>JSON.stringify\<close> writes a number property: \<^verbatim>\<open>NaN\<close> and the infinities
  become \<^verbatim>\<open>null\<close>.
\<close>

fun stringify_num :: "jsnum \<Rightarrow> strnum option" where
  "stringify_num (Fin x) = Some (Num (Fin x))"
| "stringify_num _ = None"

text \<open>An optional field that is \<^verbatim>\<open>undefined\<close> is left out of the object.\<close>

definition stringify_item :: "CartItem \<Rightarrow> json" where
  "stringify_item item =
     JObj \<lparr> p_id = stringify_num (id' item),
            p_name = Some (name item),
            p_price = stringify_num (price item),
            p_quantity = stringify_num (quantity item),
            p_fileName = fileName item,
            p_stock = stringify_num (stock item),
            p_sellerId = (case sellerId item of None \<Rightarrow> None | Some n \<Rightarrow> stringify_num n) \<rparr>"

definition JSON_stringify :: "CartItem list \<Rightarrow> blob" where
  "JSON_stringify items = Text (JArr (map stringify_item items))"

text \<open>The object with none of the seven properties, such as \<^verbatim>\<open>{}\<close>.\<close>

definition no_properties :: PartialCartItem where
  "no_properties =
     \<lparr> p_id = None, p_name = None, p_price = None, p_quantity = None,
       p_fileName = None, p_stock = None, p_sellerId = None \<rparr>"

text \<open>
  \<^verbatim>\<open>sanitizeCartItem(item)\<close> on an element of the parsed array. Reading a property of
  \<^verbatim>\<open>null\<close> throws a \<^verbatim>\<open>TypeError\<close>; a number, a string, a boolean and an array have
  none of the seven properties.
\<close>

fun sanitize_element :: "json \<Rightarrow> error + CartItem" where
  "sanitize_element JNull = Inl TypeError"
| "sanitize_element (JObj item) = Inr (sanitizeCartItem item)"
| "sanitize_element _ = Inr (sanitizeCartItem no_properties)"

text \<open>\<^verbatim>\<open>data.map(item => sanitizeCartItem(item))\<close>, stopping at the first element that throws.\<close>

fun map_sanitize :: "json list \<Rightarrow> error + CartItem list" where
  "map_sanitize [] = Inr []"
| "map_sanitize (x # xs) =
     (case sanitize_element x of
        Inl e \<Rightarrow> Inl e
      | Inr item \<Rightarrow> (case map_sanitize xs of Inl e \<Rightarrow> Inl e | Inr items \<Rightarrow> Inr (item # items)))"

text \<open>
  \<^verbatim>\<open>sanitizeCartData(data: any[])\<close>: only an array has a \<^verbatim>\<open>map\<close> method, so the
  call throws a \<^verbatim>\<open>TypeError\<close> on every other value.
\<close>

fun sanitizeCartData :: "json \<Rightarrow> error + CartItem list" where
  "sanitizeCartData (JArr xs) = map_sanitize xs"
| "sanitizeCartData _ = Inl TypeError"

section \<open>src/app/contexts/NotificationContext.tsx: CartProvider\<close>

text \<open>
  The state of the provider: the React state \<^verbatim>\<open>cartItems\<close> and the key
  \<^verbatim>\<open>'cart'\<close> of \<^verbatim>\<open>localStorage\<close> (\<open>None\<close> when the key is absent). A call of a
  mutator is modelled together with the commit of the state update that it schedules; the
  save effect, which React runs after the commit, is a step of its own.
\<close>

record provider =
  cartItems :: "CartItem list"
  storage :: "blob option"

text \<open>\<^verbatim>\<open>useState<CartItem[]>([])\<close> over whatever the browser has stored.\<close>

definition initial :: "blob option \<Rightarrow> provider" where
  "initial st = \<lparr> cartItems = [], storage = st \<rparr>"

text \<open>\<^verbatim>\<open>setCartItems(updater)\<close>.\<close>

definition setCartItems :: "(CartItem list \<Rightarrow> CartItem list) \<Rightarrow> provider \<Rightarrow> provider" where
  "setCartItems f s = s \<lparr> cartItems := f (cartItems s) \<rparr>"

text \<open>The body of the \<^verbatim>\<open>try\<close> block of the load effect.\<close>

definition load_try :: "blob \<Rightarrow> error + CartItem list" where
  "load_try savedCart =
     (case JSON_parse savedCart of
        Inl e \<Rightarrow> Inl e
      | Inr parsedCart \<Rightarrow> sanitizeCartData parsedCart)"

text \<open>
  The load effect, run once on mount. \<^verbatim>\<open>if (savedCart)\<close> skips an absent key and the
  empty string; the \<^verbatim>\<open>catch\<close> clause removes the key. The result is \<open>Inr\<close>: whatever
  the \<^verbatim>\<open>try\<close> block throws is caught.
\<close>

definition load_effect :: "provider \<Rightarrow> error + provider" where
  "load_effect s =
     (case storage s of
        None \<Rightarrow> Inr s
      | Some savedCart \<Rightarrow>
          if savedCart \<noteq> EmptyText then
            (case load_try savedCart of
               Inr sanitizedCart \<Rightarrow> Inr (setCartItems (\<lambda>_. sanitizedCart) s)
             | Inl e \<Rightarrow> Inr (s \<lparr> storage := None \<rparr>))
          else Inr s)"

text \<open>The save effect: \<^verbatim>\<open>localStorage.setItem('cart', JSON.stringify(cartItems))\<close>.\<close>

definition save_effect :: "provider \<Rightarrow> provider" where
  "save_effect s = s \<lparr> storage := Some (JSON_stringify (cartItems s)) \<rparr>"

text \<open>
  \<^verbatim>\<open>addToCart(product, quantity = 1)\<close>. The product is the object that the caller
  passes; \<^verbatim>\<open>{ ...product, quantity }\<close> sets its \<^verbatim>\<open>quantity\<close> property. The quantity
  is a number, or omitted (\<open>None\<close>), and then \<^verbatim>\<open>1\<close>. The test
  \<^verbatim>\<open>item.id === product.id\<close> compares the number of a line with the product's
  \<^verbatim>\<open>id\<close>, which equals no number when it is a string or missing.
\<close>

fun id_is :: "strnum option \<Rightarrow> jsnum \<Rightarrow> bool" where
  "id_is (Some (Num n)) i = strict_eq i n"
| "id_is _ i = False"

definition addToCart :: "PartialCartItem \<Rightarrow> jsnum option \<Rightarrow> provider \<Rightarrow> provider" where
  "addToCart product quantity_arg =
     (let quantity' = (case quantity_arg of None \<Rightarrow> Fin 1 | Some q \<Rightarrow> q) in
      setCartItems (\<lambda>prevItems.
        case find (\<lambda>item. id_is (p_id product) (id' item)) prevItems of
          Some existingItem \<Rightarrow>
            map (\<lambda>item.
                  if id_is (p_id product) (id' item)
                  then item \<lparr> quantity := js_add (quantity item) quantity' \<rparr>
                  else item) prevItems
        | None \<Rightarrow>
            prevItems @ [sanitizeCartItem (product \<lparr> p_quantity := Some (Num quantity') \<rparr>)]))"

definition removeFromCart :: "jsnum \<Rightarrow> provider \<Rightarrow> provider" where
  "removeFromCart productId =
     setCartItems (\<lambda>prevItems. filter (\<lambda>item. \<not> strict_eq (id' item) productId) prevItems)"

definition updateQuantity :: "jsnum \<Rightarrow> jsnum \<Rightarrow> provider \<Rightarrow> provider" where
  "updateQuantity productId quantity' =
     (if js_le quantity' (Fin 0) then removeFromCart productId
      else setCartItems (\<lambda>prevItems.
             map (\<lambda>item.
                   if strict_eq (id' item) productId
                   then item \<lparr> quantity := Math_min quantity' (stock item) \<rparr>
                   else item) prevItems))"

text \<open>\<^verbatim>\<open>clearCart\<close>: \<^verbatim>\<open>setCartItems([])\<close> and \<^verbatim>\<open>localStorage.removeItem('cart')\<close>.\<close>

definition clearCart :: "provider \<Rightarrow> provider" where
  "clearCart s = (setCartItems (\<lambda>_. []) s) \<lparr> storage := None \<rparr>"

text \<open>The derived values, recomputed from \<^verbatim>\<open>cartItems\<close> at every render.\<close>

definition totalPrice :: "provider \<Rightarrow> jsnum" where
  "totalPrice s =
     foldl (\<lambda>total item. js_add total (js_mul (ensureNumber (Num (price item))) (quantity item)))
       (Fin 0) (cartItems s)"

definition itemCount :: "provider \<Rightarrow> jsnum" where
  "itemCount s = foldl (\<lambda>count item. js_add count (quantity item)) (Fin 0) (cartItems s)"

section \<open>Sequences of calls\<close>

text \<open>The four mutators that the context exposes, as the calls of a client.\<close>

datatype call =
    AddToCart PartialCartItem "jsnum option"
  | RemoveFromCart jsnum
  | UpdateQuantity jsnum jsnum
  | ClearCart

fun perform :: "call \<Rightarrow> provider \<Rightarrow> provider" where
  "perform (AddToCart product quantity_arg) s = addToCart product quantity_arg s"
| "perform (RemoveFromCart productId) s = removeFromCart productId s"
| "perform (UpdateQuantity productId q) s = updateQuantity productId q s"
| "perform ClearCart s = clearCart s"

definition run :: "call list \<Rightarrow> provider \<Rightarrow> provider" where
  "run calls s = foldl (\<lambda>s c. perform c s) s calls"

section \<open>Predicates of the statements\<close>

text \<open>\<^verbatim>\<open>a < b\<close> on numbers.\<close>

definition js_lt :: "jsnum \<Rightarrow> jsnum \<Rightarrow> bool" where
  "js_lt a b = (js_le a b \<and> a \<noteq> b)"

text \<open>The \<^verbatim>\<open>id\<close> of a product is a number other than \<^verbatim>\<open>NaN\<close>.\<close>

fun numeric_id :: "strnum option \<Rightarrow> bool" where
  "numeric_id (Some (Num n)) = (n \<noteq> NaN)"
| "numeric_id _ = False"

text \<open>A call of \<^verbatim>\<open>addToCart\<close> with such a product.\<close>

fun adds_numeric_id :: "call \<Rightarrow> bool" where
  "adds_numeric_id (AddToCart product quantity_arg) = numeric_id (p_id product)"
| "adds_numeric_id _ = False"

text \<open>
  A call whose quantities are those of a shopper: \<^verbatim>\<open>addToCart\<close> with a quantity of at
  least one (or none) and a product whose stock, once sanitized, is at least one;
  \<^verbatim>\<open>updateQuantity\<close> with a quantity that is at most zero or at least one.
\<close>

fun positive_call :: "call \<Rightarrow> bool" where
  "positive_call (AddToCart product quantity_arg) =
     ((case quantity_arg of None \<Rightarrow> True | Some q \<Rightarrow> js_le (Fin 1) q)
      \<and> js_le (Fin 1) (ensureNumber (or_default (p_stock product) (Num (Fin 0)))))"
| "positive_call (UpdateQuantity productId q) = (js_le q (Fin 0) \<or> js_le (Fin 1) q)"
| "positive_call _ = True"

text \<open>A parsed value other than an array.\<close>

fun not_an_array :: "json \<Rightarrow> bool" where
  "not_an_array (JArr xs) = False"
| "not_an_array _ = True"

text \<open>
  The properties of an array element other than \<^verbatim>\<open>null\<close>: those of an object, and
  none of the seven for a number, a string, a boolean or an array.
\<close>

fun properties_of :: "json \<Rightarrow> PartialCartItem" where
  "properties_of (JObj item) = item"
| "properties_of x = no_properties"

text \<open>
  An input that holds no number: missing, \<^verbatim>\<open>NaN\<close>, or a string that
  \<^verbatim>\<open>parseFloat\<close> does not parse.
\<close>

fun non_numeric :: "strnum option \<Rightarrow> bool" where
  "non_numeric None = True"
| "non_numeric (Some (Num n)) = isNaN n"
| "non_numeric (Some (Str s)) = isNaN (parseFloat s)"

fun finite_num :: "jsnum \<Rightarrow> bool" where
  "finite_num (Fin x) = True"
| "finite_num _ = False"

text \<open>
  A line as \<^verbatim>\<open>sanitizeCartItem\<close> builds it from finite numbers and a quantity other
  than zero: all seven fields are present.
\<close>

definition persistable :: "CartItem \<Rightarrow> bool" where
  "persistable item =
     (finite_num (id' item) \<and> finite_num (price item) \<and> finite_num (quantity item)
      \<and> quantity item \<noteq> Fin 0 \<and> finite_num (stock item) \<and> fileName item \<noteq> None
      \<and> (case sellerId item of None \<Rightarrow> False | Some n \<Rightarrow> finite_num n))"

text \<open>The invariant of the ids: no two lines share one, and none is \<^verbatim>\<open>NaN\<close>.\<close>

definition unique_ids :: "provider \<Rightarrow> bool" where
  "unique_ids s = (distinct (map id' (cartItems s)) \<and> NaN \<notin> set (map id' (cartItems s)))"

text \<open>The invariant of the quantities: at least one, as is the stock of every line.\<close>

definition positive_lines :: "provider \<Rightarrow> bool" where
  "positive_lines s =
     (\<forall>item \<in> set (cartItems s). js_le (Fin 1) (quantity item) \<and> js_le (Fin 1) (stock item))"

section \<open>Example values\<close>

text \<open>The product \<^verbatim>\<open>{id: 1, name: "X", price: 10, stock: 5}\<close>.\<close>

definition product_X :: PartialCartItem where
  "product_X =
     \<lparr> p_id = Some (Num (Fin 1)), p_name = Some ''X'', p_price = Some (Num (Fin 10)),
       p_quantity = None, p_fileName = None, p_stock = Some (Num (Fin 5)), p_sellerId = None \<rparr>"

text \<open>The line that \<^verbatim>\<open>addToCart\<close> builds from it, with a given quantity.\<close>

definition line_X :: "jsnum \<Rightarrow> CartItem" where
  "line_X q =
     \<lparr> id' = Fin 1, name = ''X'', price = Fin 10, quantity = q, fileName = Some [],
       stock = Fin 5, sellerId = Some (Fin 0) \<rparr>"

text \<open>A line \<^verbatim>\<open>{id: 7, price: 15, stock: 3, quantity: 2}\<close>.\<close>

definition line_7 :: CartItem where
  "line_7 =
     \<lparr> id' = Fin 7, name = ''Y'', price = Fin 15, quantity = Fin 2, fileName = Some [],
       stock = Fin 3, sellerId = Some (Fin 0) \<rparr>"

text \<open>A line \<^verbatim>\<open>{id: 2, quantity: 1}\<close>.\<close>

definition line_2 :: CartItem where
  "line_2 =
     \<lparr> id' = Fin 2, name = ''Z'', price = Fin 4, quantity = Fin 1, fileName = Some [],
       stock = Fin 9, sellerId = Some (Fin 0) \<rparr>"

section \<open>Rounding to a double\<close>

lemma floor_log2_ge1:
  assumes "1 \<le> a"
  shows "0 \<le> floor_log2 a \<and> 2 ^ nat (floor_log2 a) \<le> a \<and> a < 2 * 2 ^ nat (floor_log2 a)"
proof -
  define n where "n = \<lfloor>a\<rfloor>"
  have n: "1 \<le> n" using assms by (simp add: n_def le_floor_iff)
  then have pos: "0 < n" by simp
  have b: "2 ^ nat (bitlen n - 1) \<le> n" "n < 2 ^ nat (bitlen n)"
    using bitlen_bounds [OF pos] by simp_all
  have b1: "1 \<le> bitlen n"
    using pos bitlen_eq_zero_iff [of n] bitlen_nonneg [of n] by linarith
  have e: "floor_log2 a = bitlen n - 1"
    using assms by (simp add: floor_log2_def n_def)
  have "of_int (2 ^ nat (bitlen n - 1)) \<le> (of_int n :: rat)"
    using b(1) by (simp only: of_int_le_iff)
  also have "\<dots> \<le> a" by (simp add: n_def)
  finally have lo: "2 ^ nat (bitlen n - 1) \<le> a" by simp
  have "n + 1 \<le> 2 ^ nat (bitlen n)" using b(2) by simp
  then have "(of_int (n + 1) :: rat) \<le> of_int (2 ^ nat (bitlen n))"
    by (simp only: of_int_le_iff)
  moreover have "a < of_int (n + 1)"
    using floor_correct [of a] by (simp add: n_def)
  ultimately have "a < of_int (2 ^ nat (bitlen n))" by linarith
  moreover have "nat (bitlen n) = Suc (nat (bitlen n - 1))" using b1 by simp
  ultimately have hi: "a < 2 * 2 ^ nat (bitlen n - 1)" by simp
  show ?thesis using e b1 lo hi by simp
qed

lemma round_half_even_ge: "of_int k \<le> y \<Longrightarrow> k \<le> round_half_even y"
proof -
  assume "of_int k \<le> y"
  then have "k \<le> \<lfloor>y\<rfloor>" by (simp add: le_floor_iff)
  then show ?thesis by (simp add: round_half_even_def Let_def)
qed

lemma round_half_even_of_int: "round_half_even (of_int k) = k"
  by (simp add: round_half_even_def)

lemma two_powi_shift: "(2::rat) powi (e - 52) * 2 ^ 52 = 2 powi e"
proof -
  have "(2::rat) powi (e - 52) * 2 powi 52 = 2 powi (e - 52 + 52)"
    by (rule power_int_add [symmetric]) simp
  then show ?thesis by simp
qed

lemma to_double_ge1:
  assumes "1 \<le> x"
  shows "to_double x = PosInf \<or> (\<exists>r. to_double x = Fin r \<and> 1 \<le> r)"
proof -
  define e where "e = floor_log2 x"
  define ulp :: rat where "ulp = 2 powi (e - 52)"
  define m where "m = round_half_even (x / ulp)"
  have e: "0 \<le> e" "2 ^ nat e \<le> x"
    using floor_log2_ge1 [OF assms] by (simp_all add: e_def)
  have ulp_pos: "0 < ulp" by (simp add: ulp_def)
  have pe: "(2::rat) powi e = 2 ^ nat e" using e(1) by (simp add: power_int_def)
  have "of_int (2 ^ 52) * ulp = (2::rat) powi e"
    using two_powi_shift [of e] by (simp add: ulp_def mult.commute)
  then have "of_int (2 ^ 52) * ulp \<le> x" using e(2) pe by simp
  then have "of_int (2 ^ 52) \<le> x / ulp" using ulp_pos by (simp add: pos_le_divide_eq)
  then have "2 ^ 52 \<le> m" unfolding m_def by (rule round_half_even_ge)
  then have "(of_int (2 ^ 52) :: rat) \<le> of_int m" by (simp only: of_int_le_iff)
  then have "of_int (2 ^ 52) * ulp \<le> of_int m * ulp"
    using ulp_pos by (simp only: mult_le_cancel_right_pos)
  moreover have "(1::rat) \<le> 2 ^ nat e" by simp
  ultimately have r: "1 \<le> of_int m * ulp"
    using \<open>of_int (2 ^ 52) * ulp = (2::rat) powi e\<close> pe by linarith
  have x: "x \<noteq> 0" "\<bar>x\<bar> = x" "\<not> x < 0" using assms by simp_all
  have mx: "max (floor_log2 x) (- 1022) = e" using e(1) by (simp add: e_def)
  have "to_double x = (if 2 powi 1024 \<le> of_int m * ulp then PosInf else Fin (of_int m * ulp))"
    unfolding to_double_def Let_def x mx ulp_def m_def using x(1,3) by simp
  then show ?thesis using r by auto
qed

lemma to_double_pos_int:
  assumes "1 \<le> n" and "n \<le> 2 ^ 53"
  shows "to_double (of_int n) = Fin (of_int n)"
proof -
  define x :: rat where "x = of_int n"
  define e where "e = floor_log2 x"
  define ulp :: rat where "ulp = 2 powi (e - 52)"
  have x1: "1 \<le> x" using assms(1) by (simp add: x_def)
  have e: "0 \<le> e" "2 ^ nat e \<le> x"
    using floor_log2_ge1 [OF x1] by (simp_all add: e_def)
  have ulp_pos: "0 < ulp" by (simp add: ulp_def)
  have "(of_int (2 ^ nat e) :: rat) \<le> of_int n" using e(2) by (simp add: x_def)
  then have en: "2 ^ nat e \<le> n" by (simp only: of_int_le_iff)
  then have "(2::int) ^ nat e \<le> 2 ^ 53" using assms(2) by linarith
  then have "nat e \<le> 53" by (simp only: power_increasing_iff [of 2])
  then have e53: "e \<le> 53" using e(1) by linarith
  have "\<exists>k. x / ulp = of_int k"
  proof (cases "e \<le> 52")
    case True
    then have "ulp = 1 / 2 ^ nat (52 - e)"
      by (simp add: ulp_def power_int_def inverse_eq_divide power_one_over)
    then have "x / ulp = of_int (n * 2 ^ nat (52 - e))" by (simp add: x_def)
    then show ?thesis by blast
  next
    case False
    with e53 have e_eq: "e = 53" by simp
    then have "n = 2 ^ 53" using en assms(2) by simp
    then have "x / ulp = of_int (2 ^ 52)" by (simp add: x_def ulp_def e_eq)
    then show ?thesis by blast
  qed
  then obtain k where k: "x / ulp = of_int k" by blast
  then have r: "of_int (round_half_even (x / ulp)) * ulp = x"
    using ulp_pos by (simp add: round_half_even_of_int field_simps)
  have "x \<le> 2 ^ 53" using assms(2) unfolding x_def
    by (metis of_int_le_iff of_int_numeral of_int_power)
  also have "\<dots> < (2::rat) ^ 1024" by simp
  finally have small: "\<not> 2 powi 1024 \<le> x" by (simp add: power_int_def)
  have xx: "x \<noteq> 0" "\<bar>x\<bar> = x" "\<not> x < 0" using x1 by simp_all
  have mx: "max (floor_log2 x) (- 1022) = e" using e(1) by (simp add: e_def)
  have "to_double x = Fin x"
    unfolding to_double_def Let_def xx mx using xx(1,3) r small by (simp add: ulp_def)
  then show ?thesis by (simp add: x_def)
qed

lemma to_double_minus:
  "to_double (- x) = (case to_double x of Fin r \<Rightarrow> Fin (- r) | PosInf \<Rightarrow> NegInf
      | NegInf \<Rightarrow> PosInf | NaN \<Rightarrow> NaN)"
  by (cases "x = 0"; cases "x < 0") (auto simp: to_double_def Let_def)

lemma to_double_int:
  assumes "\<bar>n\<bar> \<le> 2 ^ 53"
  shows "to_double (of_int n) = Fin (of_int n)"
proof -
  consider "n = 0" | "1 \<le> n" | "1 \<le> - n" by linarith
  then show ?thesis
  proof cases
    case 1
    then show ?thesis by (simp add: to_double_def)
  next
    case 2
    then show ?thesis using assms by (simp add: to_double_pos_int)
  next
    case 3
    then have "to_double (- of_int n) = Fin (- of_int n)"
      using assms to_double_pos_int [of "- n"] by simp
    then show ?thesis
      using to_double_minus [of "of_int n"] by (cases "to_double (of_int n)") auto
  qed
qed

lemma to_double_numeral:
  "numeral k \<le> (2::int) ^ 53 \<Longrightarrow> to_double (numeral k) = Fin (numeral k)"
  using to_double_int [of "numeral k"] by simp

lemma to_double_2_53_plus_1: "to_double 9007199254740993 = Fin 9007199254740992"
  by code_simp

section \<open>Basic facts\<close>

lemma cartItems_setCartItems: "cartItems (setCartItems f s) = f (cartItems s)"
  by (simp add: setCartItems_def)

lemma storage_setCartItems: "storage (setCartItems f s) = storage s"
  by (simp add: setCartItems_def)

lemma isNaN_iff: "isNaN n = (n = NaN)"
  by (cases n) auto

lemma run_snoc: "run (calls @ [c]) s = perform c (run calls s)"
  by (simp add: run_def)

lemma find_present:
  assumes "x \<in> set xs" and "P x"
  shows "\<exists>e. find P xs = Some e"
proof (cases "find P xs")
  case None
  with assms show ?thesis by (auto simp: find_None_iff)
next
  case (Some e)
  then show ?thesis by simp
qed

lemma addToCart_present:
  assumes "x \<in> set (cartItems s)" and "id_is (p_id product) (id' x)"
  shows "cartItems (addToCart product qa s)
     = map (\<lambda>item.
              if id_is (p_id product) (id' item)
              then item \<lparr> quantity :=
                     js_add (quantity item) (case qa of None \<Rightarrow> Fin 1 | Some q \<Rightarrow> q) \<rparr>
              else item) (cartItems s)"
proof -
  obtain e where "find (\<lambda>item. id_is (p_id product) (id' item)) (cartItems s) = Some e"
    using find_present [of x "cartItems s" "\<lambda>item. id_is (p_id product) (id' item)"] assms
    by blast
  then show ?thesis
    by (simp add: addToCart_def cartItems_setCartItems Let_def)
qed

lemma addToCart_absent:
  assumes "\<forall>item \<in> set (cartItems s). \<not> id_is (p_id product) (id' item)"
  shows "cartItems (addToCart product qa s)
     = cartItems s @ [sanitizeCartItem
         (product \<lparr> p_quantity := Some (Num (case qa of None \<Rightarrow> Fin 1 | Some q \<Rightarrow> q)) \<rparr>)]"
proof -
  have "find (\<lambda>item. id_is (p_id product) (id' item)) (cartItems s) = None"
    using assms by (simp add: find_None_iff)
  then show ?thesis
    by (simp add: addToCart_def cartItems_setCartItems Let_def)
qed

lemma map_id_merge:
  "map id' (map (\<lambda>item. if P item then item \<lparr> quantity := f item \<rparr> else item) xs) = map id' xs"
  by (induction xs) simp_all

section \<open>Uniqueness of the ids\<close>

lemma unique_ids_same_ids:
  "map id' (cartItems t) = map id' (cartItems s) \<Longrightarrow> unique_ids s \<Longrightarrow> unique_ids t"
  by (simp add: unique_ids_def)

lemma sanitized_numeric_id:
  assumes "numeric_id pid"
  shows "\<exists>n. pid = Some (Num n) \<and> n \<noteq> NaN \<and> ensureNumber (or_default pid (Num (Fin 0))) = n"
proof (cases pid)
  case None
  with assms show ?thesis by simp
next
  case (Some v)
  with assms show ?thesis by (cases v) auto
qed

lemma addToCart_keeps_unique_ids:
  assumes "numeric_id (p_id product)" and "unique_ids s"
  shows "unique_ids (addToCart product qa s)"
proof -
  obtain n where n: "p_id product = Some (Num n)" "n \<noteq> NaN"
      "ensureNumber (or_default (p_id product) (Num (Fin 0))) = n"
    using sanitized_numeric_id [OF assms(1)] by blast
  show ?thesis
  proof (cases "\<exists>x \<in> set (cartItems s). id_is (p_id product) (id' x)")
    case True
    then obtain x where "x \<in> set (cartItems s)" "id_is (p_id product) (id' x)"
      by blast
    then have "map id' (cartItems (addToCart product qa s)) = map id' (cartItems s)"
      by (simp only: addToCart_present map_id_merge)
    then show ?thesis
      using assms(2) by (rule unique_ids_same_ids)
  next
    case False
    then have absent: "\<forall>item \<in> set (cartItems s). \<not> id_is (p_id product) (id' item)"
      by blast
    then have "\<forall>x \<in> set (cartItems s). \<not> strict_eq (id' x) n"
      using n(1) by simp
    then have fresh: "n \<notin> set (map id' (cartItems s))"
      using n(2) assms(2) by (auto simp: strict_eq_def unique_ids_def)
    have new: "id' (sanitizeCartItem (product \<lparr> p_quantity := Some (Num q) \<rparr>)) = n" for q
      using n(3) by (simp add: sanitizeCartItem_def)
    show ?thesis
      using assms(2) fresh new n(2)
      by (simp add: addToCart_absent [OF absent] unique_ids_def)
  qed
qed

lemma run_adds_unique_ids:
  "\<forall>c \<in> set calls. adds_numeric_id c \<Longrightarrow> unique_ids (run calls (initial st))"
proof (induction calls rule: rev_induct)
  case Nil
  show ?case by (simp add: run_def initial_def unique_ids_def)
next
  case (snoc c calls)
  then have ih: "unique_ids (run calls (initial st))" and c: "adds_numeric_id c"
    by simp_all
  from c obtain product qa where "c = AddToCart product qa" "numeric_id (p_id product)"
    by (cases c) auto
  then show ?case
    using ih by (simp add: run_snoc addToCart_keeps_unique_ids)
qed

text \<open>
  Claim C1. For every sequence of \<^verbatim>\<open>addToCart\<close> calls starting from the empty
  collection, the products carrying a number as \<^verbatim>\<open>id\<close> as the interface declares
  (\<^verbatim>\<open>id: number\<close>, an identifier and so not \<^verbatim>\<open>NaN\<close>), no two lines of the
  resulting collection have the same \<^verbatim>\<open>id\<close>; and in any state, adding a product
  whose \<^verbatim>\<open>id\<close> equals that of a line leaves the list of ids as it was: the call merges
  into the line and inserts nothing.
\<close>

theorem addToCart_unique_ids:
  assumes "\<forall>c \<in> set calls. adds_numeric_id c"
  shows "distinct (map id' (cartItems (run calls (initial st))))
    \<and> (\<forall>product qa s.
          (\<exists>x \<in> set (cartItems s). id_is (p_id product) (id' x)) \<longrightarrow>
          map id' (cartItems (addToCart product qa s)) = map id' (cartItems s))"
proof -
  have "unique_ids (run calls (initial st))"
    using assms by (rule run_adds_unique_ids)
  then have a: "distinct (map id' (cartItems (run calls (initial st))))"
    by (simp add: unique_ids_def)
  have b: "map id' (cartItems (addToCart product qa s)) = map id' (cartItems s)"
    if "\<exists>x \<in> set (cartItems s). id_is (p_id product) (id' x)" for product qa s
  proof -
    from that obtain x where "x \<in> set (cartItems s)" "id_is (p_id product) (id' x)"
      by blast
    then show ?thesis
      by (simp only: addToCart_present map_id_merge)
  qed
  show ?thesis using a b by blast
qed

theorem addToCart_unique_ids_witness:
  "adds_numeric_id (AddToCart product_X (Some (Fin 2)))
   \<and> adds_numeric_id (AddToCart product_X (Some (Fin 1)))
   \<and> distinct (map id' (cartItems
        (run [AddToCart product_X (Some (Fin 2)), AddToCart product_X (Some (Fin 1))]
           (initial None))))
   \<and> cartItems (run [AddToCart product_X (Some (Fin 2)), AddToCart product_X (Some (Fin 1))]
        (initial None)) = [line_X (Fin 3)]"
proof -
  have h: "\<forall>c \<in> set [AddToCart product_X (Some (Fin 2)), AddToCart product_X (Some (Fin 1))].
             adds_numeric_id c"
    by (simp add: product_X_def)
  have "cartItems (run [AddToCart product_X (Some (Fin 2)), AddToCart product_X (Some (Fin 1))]
        (initial None)) = [line_X (Fin 3)]"
    by (simp add: run_def addToCart_def setCartItems_def initial_def sanitizeCartItem_def
        strict_eq_def Let_def product_X_def line_X_def to_double_numeral)
  then show ?thesis
    using h addToCart_unique_ids [OF h, of None] by simp
qed

section \<open>updateQuantity\<close>

text \<open>
  Claim C2. For every cart with a line of the given \<^verbatim>\<open>id\<close> and stock \<open>s\<close>, a stock
  being a non-negative number, and every quantity \<open>q\<close> with \<open>q > s\<close>,
  \<^verbatim>\<open>updateQuantity\<close> leaves that line with the quantity \<open>s\<close>. In particular, on the
  single line \<^verbatim>\<open>{id: 7, price: 15, stock: 3, quantity: 2}\<close>,
  \<^verbatim>\<open>updateQuantity(7, 10)\<close> gives the quantity 3 and the total price 45.
\<close>

theorem updateQuantity_ceiling:
  assumes "i < length (cartItems s)"
    and "strict_eq (id' (cartItems s ! i)) productId"
    and "js_le (Fin 0) (stock (cartItems s ! i))"
    and "js_lt (stock (cartItems s ! i)) q"
  shows "quantity (cartItems (updateQuantity productId q s) ! i) = stock (cartItems s ! i)
    \<and> cartItems (updateQuantity (Fin 7) (Fin 10)
         \<lparr> cartItems = [\<lparr> id' = Fin 7, name = nm, price = Fin 15, quantity = Fin 2,
                           fileName = fn, stock = Fin 3, sellerId = sid \<rparr>], storage = st \<rparr>)
         = [\<lparr> id' = Fin 7, name = nm, price = Fin 15, quantity = Fin 3,
               fileName = fn, stock = Fin 3, sellerId = sid \<rparr>]
    \<and> totalPrice (updateQuantity (Fin 7) (Fin 10)
         \<lparr> cartItems = [\<lparr> id' = Fin 7, name = nm, price = Fin 15, quantity = Fin 2,
                           fileName = fn, stock = Fin 3, sellerId = sid \<rparr>], storage = st \<rparr>)
         = Fin 45"
proof -
  have pos: "\<not> js_le q (Fin 0)"
    using assms(3,4) by (cases q; cases "stock (cartItems s ! i)") (auto simp: js_lt_def)
  have m: "Math_min q (stock (cartItems s ! i)) = stock (cartItems s ! i)"
    using assms(4) by (cases q; cases "stock (cartItems s ! i)") (auto simp: Math_min_def js_lt_def)
  have a: "quantity (cartItems (updateQuantity productId q s) ! i) = stock (cartItems s ! i)"
    using assms(1,2) pos m by (simp add: updateQuantity_def cartItems_setCartItems)
  have b: "cartItems (updateQuantity (Fin 7) (Fin 10)
         \<lparr> cartItems = [\<lparr> id' = Fin 7, name = nm, price = Fin 15, quantity = Fin 2,
                           fileName = fn, stock = Fin 3, sellerId = sid \<rparr>], storage = st \<rparr>)
         = [\<lparr> id' = Fin 7, name = nm, price = Fin 15, quantity = Fin 3,
               fileName = fn, stock = Fin 3, sellerId = sid \<rparr>]"
    by (simp add: updateQuantity_def cartItems_setCartItems strict_eq_def Math_min_def)
  have c: "totalPrice (updateQuantity (Fin 7) (Fin 10)
         \<lparr> cartItems = [\<lparr> id' = Fin 7, name = nm, price = Fin 15, quantity = Fin 2,
                           fileName = fn, stock = Fin 3, sellerId = sid \<rparr>], storage = st \<rparr>)
         = Fin 45"
    by (simp add: totalPrice_def b to_double_numeral)
  show ?thesis using a b c by simp
qed

theorem updateQuantity_ceiling_witness:
  "strict_eq (id' line_7) (Fin 7) \<and> js_le (Fin 0) (stock line_7) \<and> js_lt (stock line_7) (Fin 10)
   \<and> quantity (cartItems (updateQuantity (Fin 7) (Fin 10)
        \<lparr> cartItems = [line_7], storage = None \<rparr>) ! 0) = Fin 3"
proof -
  have h: "0 < length (cartItems \<lparr> cartItems = [line_7], storage = None \<rparr>)"
      "strict_eq (id' (cartItems \<lparr> cartItems = [line_7], storage = None \<rparr> ! 0)) (Fin 7)"
      "js_le (Fin 0) (stock (cartItems \<lparr> cartItems = [line_7], storage = None \<rparr> ! 0))"
      "js_lt (stock (cartItems \<lparr> cartItems = [line_7], storage = None \<rparr> ! 0)) (Fin 10)"
    by (simp_all add: line_7_def strict_eq_def js_lt_def)
  from updateQuantity_ceiling [OF h] h show ?thesis
    by (simp add: line_7_def)
qed

text \<open>
  Claim C3. For every cart and every quantity \<open>q\<close> with \<open>q <= 0\<close>, \<^verbatim>\<open>updateQuantity\<close>
  with \<open>q\<close> is \<^verbatim>\<open>removeFromCart\<close> of that \<^verbatim>\<open>id\<close>: the resulting collection is the
  old one without the lines of that \<^verbatim>\<open>id\<close>, so no line has that \<^verbatim>\<open>id\<close> afterwards
  and the other lines are kept as they were, in their order.
\<close>

theorem updateQuantity_floor:
  assumes "js_le q (Fin 0)"
  shows "updateQuantity productId q s = removeFromCart productId s
    \<and> cartItems (updateQuantity productId q s)
        = filter (\<lambda>item. \<not> strict_eq (id' item) productId) (cartItems s)
    \<and> (\<forall>item \<in> set (cartItems (updateQuantity productId q s)).
          \<not> strict_eq (id' item) productId)
    \<and> storage (updateQuantity productId q s) = storage s"
  using assms
  by (simp add: updateQuantity_def removeFromCart_def cartItems_setCartItems storage_setCartItems)

theorem updateQuantity_floor_witness:
  "js_le (Fin 0) (Fin 0)
   \<and> cartItems (updateQuantity (Fin 2) (Fin 0) \<lparr> cartItems = [line_7, line_2], storage = None \<rparr>)
       = [line_7]
   \<and> cartItems (updateQuantity (Fin 2) (Fin 0) \<lparr> cartItems = [line_2], storage = None \<rparr>) = []
   \<and> itemCount (updateQuantity (Fin 2) (Fin 0) \<lparr> cartItems = [line_2], storage = None \<rparr>)
       = Fin 0"
proof -
  have h: "js_le (Fin 0) (Fin 0)"
    by simp
  have a: "cartItems (updateQuantity (Fin 2) (Fin 0) \<lparr> cartItems = [line_7, line_2], storage = None \<rparr>)
       = [line_7]"
    using updateQuantity_floor [OF h, of "Fin 2" "\<lparr> cartItems = [line_7, line_2], storage = None \<rparr>",
        THEN conjunct2, THEN conjunct1]
    by (simp add: line_7_def line_2_def strict_eq_def)
  have b: "cartItems (updateQuantity (Fin 2) (Fin 0) \<lparr> cartItems = [line_2], storage = None \<rparr>) = []"
    using updateQuantity_floor [OF h, of "Fin 2" "\<lparr> cartItems = [line_2], storage = None \<rparr>",
        THEN conjunct2, THEN conjunct1]
    by (simp add: line_2_def strict_eq_def)
  show ?thesis
    using h a b by (simp add: itemCount_def)
qed

text \<open>
  Claim C10. For every cart and every quantity \<open>q\<close> with \<open>q >= 1\<close>, \<^verbatim>\<open>updateQuantity\<close>
  changes nothing but the \<^verbatim>\<open>quantity\<close> field of the lines with the given \<^verbatim>\<open>id\<close>: the
  collection keeps its length and the order of its ids, every line is the old line at the
  same position up to its quantity, a line with another \<^verbatim>\<open>id\<close> is the old line, and
  the persisted blob is not touched by the call.
\<close>

theorem updateQuantity_frame:
  assumes "js_le (Fin 1) q"
  shows "length (cartItems (updateQuantity productId q s)) = length (cartItems s)
    \<and> map id' (cartItems (updateQuantity productId q s)) = map id' (cartItems s)
    \<and> (\<forall>i < length (cartItems s).
          cartItems (updateQuantity productId q s) ! i
            = (cartItems s ! i)
                \<lparr> quantity := quantity (cartItems (updateQuantity productId q s) ! i) \<rparr>
          \<and> (\<not> strict_eq (id' (cartItems s ! i)) productId \<longrightarrow>
                cartItems (updateQuantity productId q s) ! i = cartItems s ! i))
    \<and> storage (updateQuantity productId q s) = storage s"
proof -
  have pos: "\<not> js_le q (Fin 0)"
    using assms by (cases q) auto
  show ?thesis
    using pos
    by (simp add: updateQuantity_def cartItems_setCartItems storage_setCartItems comp_def)
qed

theorem updateQuantity_frame_witness:
  "js_le (Fin 1) (Fin 1)
   \<and> cartItems (updateQuantity (Fin 7) (Fin 1) \<lparr> cartItems = [line_7, line_2], storage = None \<rparr>)
       = [line_7 \<lparr> quantity := Fin 1 \<rparr>, line_2]"
proof -
  have h: "js_le (Fin 1) (Fin 1)"
    by simp
  have "cartItems (updateQuantity (Fin 7) (Fin 1) \<lparr> cartItems = [line_7, line_2], storage = None \<rparr>)
       = [line_7 \<lparr> quantity := Fin 1 \<rparr>, line_2]"
    by (simp add: updateQuantity_def setCartItems_def strict_eq_def Math_min_def
        line_7_def line_2_def)
  then show ?thesis
    using h updateQuantity_frame [OF h, of "Fin 7" "\<lparr> cartItems = [line_7, line_2], storage = None \<rparr>"]
    by simp
qed

section \<open>addToCart on a product that has a line\<close>

text \<open>
  Claim C6, amended. For every cart with a line of the product's \<^verbatim>\<open>id\<close> and every
  quantity \<open>q\<close>, \<^verbatim>\<open>addToCart\<close> replaces the quantity of that line by the sum of the
  old quantity and \<open>q\<close> (of the old quantity and 1 when the quantity is omitted) as
  JavaScript adds two numbers, whatever the stock of the line, and leaves the other fields
  of the line as they were; the collection keeps its length. The sum is the old quantity
  plus exactly \<open>q\<close> when both are integers and the magnitude of their sum is at most
  \<open>2 ^ 53\<close>; beyond that the sum is rounded to a double.
\<close>

theorem addToCart_merge:
  assumes "i < length (cartItems s)"
    and "id_is (p_id product) (id' (cartItems s ! i))"
  shows "cartItems (addToCart product (Some q) s) ! i
           = (cartItems s ! i) \<lparr> quantity := js_add (quantity (cartItems s ! i)) q \<rparr>
    \<and> cartItems (addToCart product None s) ! i
           = (cartItems s ! i) \<lparr> quantity := js_add (quantity (cartItems s ! i)) (Fin 1) \<rparr>
    \<and> length (cartItems (addToCart product qa s)) = length (cartItems s)
    \<and> storage (addToCart product qa s) = storage s
    \<and> (\<forall>a b. quantity (cartItems s ! i) = Fin (of_int a) \<and> q = Fin (of_int b)
            \<and> \<bar>a + b\<bar> \<le> 2 ^ 53 \<longrightarrow>
          quantity (cartItems (addToCart product (Some q) s) ! i) = Fin (of_int (a + b)))"
proof -
  have x: "cartItems s ! i \<in> set (cartItems s)"
    using assms(1) by simp
  have st: "storage (addToCart product qa s) = storage s"
    by (simp add: addToCart_def storage_setCartItems Let_def)
  have m: "cartItems (addToCart product (Some q) s) ! i
           = (cartItems s ! i) \<lparr> quantity := js_add (quantity (cartItems s ! i)) q \<rparr>"
    using assms by (simp add: addToCart_present [OF x assms(2)])
  have d: "cartItems (addToCart product None s) ! i
           = (cartItems s ! i) \<lparr> quantity := js_add (quantity (cartItems s ! i)) (Fin 1) \<rparr>"
    using assms by (simp add: addToCart_present [OF x assms(2)])
  have l: "length (cartItems (addToCart product qa s)) = length (cartItems s)"
    by (simp add: addToCart_present [OF x assms(2)])
  have e: "quantity (cartItems (addToCart product (Some q) s) ! i) = Fin (of_int (a + b))"
    if "quantity (cartItems s ! i) = Fin (of_int a)" "q = Fin (of_int b)" "\<bar>a + b\<bar> \<le> 2 ^ 53"
    for a b
  proof -
    have "js_add (Fin (of_int a)) (Fin (of_int b)) = to_double (of_int (a + b))"
      by simp
    also have "\<dots> = Fin (of_int (a + b))"
      using that(3) by (rule to_double_int)
    finally have sum: "js_add (quantity (cartItems s ! i)) q = Fin (of_int (a + b))"
      unfolding that(1,2) .
    have "quantity (cartItems (addToCart product (Some q) s) ! i)
        = js_add (quantity (cartItems s ! i)) q"
      by (simp add: m)
    from this sum show ?thesis
      by (rule trans)
  qed
  show ?thesis using m d l st e by blast
qed

theorem addToCart_merge_witness:
  "id_is (p_id product_X) (id' (cartItems \<lparr> cartItems = [line_X (Fin 2)], storage = None \<rparr> ! 0))
   \<and> cartItems (addToCart product_X (Some (Fin 1))
        \<lparr> cartItems = [line_X (Fin 2)], storage = None \<rparr>) ! 0 = line_X (Fin 3)
   \<and> cartItems (addToCart product_X (Some (Fin 10))
        \<lparr> cartItems = [line_X (Fin 2)], storage = None \<rparr>) ! 0 = line_X (Fin 12)"
proof -
  have h: "0 < length (cartItems \<lparr> cartItems = [line_X (Fin 2)], storage = None \<rparr>)"
      "id_is (p_id product_X) (id' (cartItems \<lparr> cartItems = [line_X (Fin 2)], storage = None \<rparr> ! 0))"
    by (simp_all add: product_X_def line_X_def strict_eq_def)
  from addToCart_merge [OF h, of "Fin 1", THEN conjunct1]
    addToCart_merge [OF h, of "Fin 10", THEN conjunct1] h(2)
  show ?thesis
    by (simp add: line_X_def to_double_numeral)
qed

text \<open>
  Claim C6 as stated fails where the sum is not a double: a line added with the quantity
  \<open>2 ^ 53\<close> keeps that quantity when the product is added again with the quantity 1,
  since \<open>2 ^ 53 + 1\<close> is rounded to \<open>2 ^ 53\<close>.
\<close>

theorem addToCart_merge_counterexample:
  "cartItems (addToCart product_X (Some (Fin 9007199254740992)) (initial None))
     = [line_X (Fin 9007199254740992)]
   \<and> cartItems (addToCart product_X (Some (Fin 1))
        (addToCart product_X (Some (Fin 9007199254740992)) (initial None)))
     = [line_X (Fin 9007199254740992)]
   \<and> (9007199254740992 :: rat) \<noteq> 9007199254740992 + 1"
  by (simp add: addToCart_def setCartItems_def initial_def sanitizeCartItem_def strict_eq_def
      Let_def product_X_def line_X_def to_double_2_53_plus_1)

section \<open>clearCart\<close>

text \<open>
  Claim C9. For every state, \<^verbatim>\<open>clearCart\<close> leaves the collection empty and the
  persisted key removed, and so does a second call, whether or not the save effect has run
  in between: a second call changes nothing. The save effect that follows a call stores the
  serialization of the empty collection, from which the load effect reads the empty
  collection.
\<close>

theorem clearCart_idempotent:
  "cartItems (clearCart s) = [] \<and> storage (clearCart s) = None
   \<and> cartItems (clearCart (clearCart s)) = [] \<and> storage (clearCart (clearCart s)) = None
   \<and> clearCart (clearCart s) = clearCart s
   \<and> clearCart (save_effect (clearCart s)) = clearCart s
   \<and> save_effect (clearCart s) = \<lparr> cartItems = [], storage = Some (JSON_stringify []) \<rparr>
   \<and> load_effect (initial (storage (save_effect (clearCart s))))
       = Inr \<lparr> cartItems = [], storage = Some (JSON_stringify []) \<rparr>"
  by (simp add: clearCart_def setCartItems_def save_effect_def JSON_stringify_def load_effect_def
      load_try_def initial_def)

section \<open>The quantity of a line\<close>

lemma js_add_ge1:
  assumes "js_le (Fin 1) a" and "js_le (Fin 1) b"
  shows "js_le (Fin 1) (js_add a b)"
proof (cases "\<exists>x y. a = Fin x \<and> b = Fin y")
  case True
  then obtain x y where xy: "a = Fin x" "b = Fin y" by blast
  with assms have "1 \<le> x + y" by simp
  then show ?thesis
    using to_double_ge1 [of "x + y"] xy by auto
next
  case False
  then show ?thesis
    using assms by (cases a; cases b) auto
qed

lemma Math_min_ge1: "js_le (Fin 1) a \<Longrightarrow> js_le (Fin 1) b \<Longrightarrow> js_le (Fin 1) (Math_min a b)"
  by (cases a; cases b) (auto simp: Math_min_def)

lemma ge1_truthy: "js_le (Fin 1) q \<Longrightarrow> or_default (Some (Num q)) d = Num q"
  by (cases q) auto

lemma addToCart_positive:
  assumes "positive_call (AddToCart product qa)" and "positive_lines s"
  shows "positive_lines (addToCart product qa s)"
proof -
  define q where "q = (case qa of None \<Rightarrow> Fin 1 | Some q \<Rightarrow> q)"
  have q: "js_le (Fin 1) q"
    using assms(1) by (cases qa) (auto simp: q_def)
  have st: "js_le (Fin 1) (ensureNumber (or_default (p_stock product) (Num (Fin 0))))"
    using assms(1) by simp
  have new: "js_le (Fin 1) (quantity (sanitizeCartItem (product \<lparr> p_quantity := Some (Num q) \<rparr>)))
     \<and> js_le (Fin 1) (stock (sanitizeCartItem (product \<lparr> p_quantity := Some (Num q) \<rparr>)))"
    using q st by (simp add: sanitizeCartItem_def ge1_truthy)
  show ?thesis
  proof (cases "\<exists>x \<in> set (cartItems s). id_is (p_id product) (id' x)")
    case True
    then obtain x where x: "x \<in> set (cartItems s)" "id_is (p_id product) (id' x)"
      by blast
    show ?thesis
      using assms(2) q
      by (auto simp: addToCart_present [OF x] positive_lines_def q_def [symmetric] js_add_ge1)
  next
    case False
    then have absent: "\<forall>item \<in> set (cartItems s). \<not> id_is (p_id product) (id' item)"
      by blast
    show ?thesis
      using assms(2) new
      by (auto simp: addToCart_absent [OF absent] positive_lines_def q_def [symmetric])
  qed
qed

lemma updateQuantity_positive:
  assumes "js_le q (Fin 0) \<or> js_le (Fin 1) q" and "positive_lines s"
  shows "positive_lines (updateQuantity productId q s)"
proof (cases "js_le q (Fin 0)")
  case True
  then show ?thesis
    using assms(2)
    by (auto simp: updateQuantity_def removeFromCart_def cartItems_setCartItems positive_lines_def)
next
  case False
  with assms(1) have "js_le (Fin 1) q" by simp
  then show ?thesis
    using False assms(2)
    by (auto simp: updateQuantity_def cartItems_setCartItems positive_lines_def Math_min_ge1)
qed

lemma perform_positive:
  assumes "positive_call c" and "positive_lines s"
  shows "positive_lines (perform c s)"
proof (cases c)
  case (AddToCart product qa)
  then show ?thesis using assms addToCart_positive by simp
next
  case (RemoveFromCart productId)
  then show ?thesis
    using assms(2) by (auto simp: removeFromCart_def cartItems_setCartItems positive_lines_def)
next
  case (UpdateQuantity productId q)
  then show ?thesis using assms updateQuantity_positive by simp
next
  case ClearCart
  then show ?thesis
    by (simp add: clearCart_def setCartItems_def positive_lines_def)
qed

lemma run_positive:
  "\<forall>c \<in> set calls. positive_call c \<Longrightarrow> positive_lines (run calls (initial st))"
proof (induction calls rule: rev_induct)
  case Nil
  show ?case by (simp add: run_def initial_def positive_lines_def)
next
  case (snoc c calls)
  then show ?case by (simp add: run_snoc perform_positive)
qed

text \<open>
  Claim C4, amended. For every sequence of \<^verbatim>\<open>addToCart\<close>, \<^verbatim>\<open>removeFromCart\<close>,
  \<^verbatim>\<open>updateQuantity\<close> and \<^verbatim>\<open>clearCart\<close> calls from the empty collection in which every
  \<^verbatim>\<open>addToCart\<close> passes a quantity of at least one (or none) and a product whose stock
  is at least one, and every \<^verbatim>\<open>updateQuantity\<close> passes a quantity that is at most zero or
  at least one, every line of the resulting collection has a quantity of at least one.
\<close>

theorem quantity_at_least_one:
  assumes "\<forall>c \<in> set calls. positive_call c"
  shows "\<forall>item \<in> set (cartItems (run calls (initial st))). js_le (Fin 1) (quantity item)"
proof -
  have "positive_lines (run calls (initial st))"
    using assms by (rule run_positive)
  then show ?thesis by (simp add: positive_lines_def)
qed

theorem quantity_at_least_one_witness:
  "positive_call (AddToCart product_X (Some (Fin 2)))
   \<and> positive_call (UpdateQuantity (Fin 1) (Fin 10))
   \<and> positive_call (AddToCart product_X None)
   \<and> positive_call (RemoveFromCart (Fin 9))
   \<and> cartItems (run [AddToCart product_X (Some (Fin 2)), UpdateQuantity (Fin 1) (Fin 10),
         AddToCart product_X None, RemoveFromCart (Fin 9)] (initial None)) = [line_X (Fin 6)]
   \<and> js_le (Fin 1) (quantity (line_X (Fin 6)))"
proof -
  have h: "\<forall>c \<in> set [AddToCart product_X (Some (Fin 2)), UpdateQuantity (Fin 1) (Fin 10),
         AddToCart product_X None, RemoveFromCart (Fin 9)]. positive_call c"
    by (simp add: product_X_def)
  have r: "cartItems (run [AddToCart product_X (Some (Fin 2)), UpdateQuantity (Fin 1) (Fin 10),
         AddToCart product_X None, RemoveFromCart (Fin 9)] (initial None)) = [line_X (Fin 6)]"
    by (simp add: run_def addToCart_def setCartItems_def initial_def sanitizeCartItem_def
        strict_eq_def Let_def updateQuantity_def removeFromCart_def Math_min_def product_X_def
        line_X_def to_double_numeral)
  from quantity_at_least_one [OF h, of None] have "js_le (Fin 1) (quantity (line_X (Fin 6)))"
    by (simp add: r)
  then show ?thesis
    using h r by simp
qed

text \<open>
  Claim C4 as stated fails on an arbitrary quantity: \<^verbatim>\<open>addToCart\<close> checks no argument,
  and a new product added with the quantity \<open>-5\<close> becomes a line with the quantity \<open>-5\<close>.
\<close>

theorem quantity_at_least_one_counterexample:
  "cartItems (run [AddToCart product_X (Some (Fin (- 5)))] (initial None)) = [line_X (Fin (- 5))]
   \<and> \<not> js_le (Fin 1) (quantity (line_X (Fin (- 5))))"
  by (simp add: run_def addToCart_def setCartItems_def initial_def sanitizeCartItem_def strict_eq_def Let_def
      product_X_def line_X_def)

section \<open>The load effect on a malformed blob\<close>

lemma sanitize_element_error: "sanitize_element x = Inl e \<Longrightarrow> e = TypeError"
  by (cases x) auto

lemma map_sanitize_null: "JNull \<in> set xs \<Longrightarrow> map_sanitize xs = Inl TypeError"
proof (induction xs)
  case Nil
  then show ?case by simp
next
  case (Cons x xs)
  show ?case
  proof (cases "x = JNull")
    case True
    then show ?thesis by simp
  next
    case False
    with Cons have "map_sanitize xs = Inl TypeError" by simp
    then show ?thesis
      by (auto split: sum.splits dest: sanitize_element_error)
  qed
qed

lemma not_an_array_throws: "not_an_array j \<Longrightarrow> sanitizeCartData j = Inl TypeError"
  by (cases j) auto

lemma sanitize_element_not_null:
  "x \<noteq> JNull \<Longrightarrow> sanitize_element x = Inr (sanitizeCartItem (properties_of x))"
  by (cases x) auto

lemma map_sanitize_no_null:
  "JNull \<notin> set xs \<Longrightarrow>
     map_sanitize xs = Inr (map (\<lambda>x. sanitizeCartItem (properties_of x)) xs)"
  by (induction xs) (auto simp: sanitize_element_not_null)

text \<open>
  Claim C5, amended. If the persisted blob is a non-empty text that is not JSON, or the text
  of a JSON value that is not an array, or of an array with a \<^verbatim>\<open>null\<close> element, the load
  effect leaves the collection empty, removes the persisted key and throws nothing. If it is
  the text of an array without a \<^verbatim>\<open>null\<close> element, the load effect throws nothing,
  leaves the key as it is and makes the collection one line for each element, in order: the
  sanitized properties of the element, an element that is not an object having none, like
  \<^verbatim>\<open>{}\<close>, which is sanitized into the line of the defaults
  \<^verbatim>\<open>{id: 0, name: '', price: 0, quantity: 1, fileName: '', stock: 0, sellerId: 0}\<close>.
\<close>

theorem load_effect_malformed:
  "(b = BadText
      \<or> (\<exists>j. b = Text j \<and> (not_an_array j \<or> (\<exists>ys. j = JArr ys \<and> JNull \<in> set ys)))
     \<longrightarrow> load_effect (initial (Some b)) = Inr \<lparr> cartItems = [], storage = None \<rparr>)
   \<and> (JNull \<notin> set xs
     \<longrightarrow> load_effect (initial (Some (Text (JArr xs))))
           = Inr \<lparr> cartItems = map (\<lambda>x. sanitizeCartItem (properties_of x)) xs,
                   storage = Some (Text (JArr xs)) \<rparr>)
   \<and> sanitizeCartItem no_properties
       = \<lparr> id' = Fin 0, name = [], price = Fin 0, quantity = Fin 1, fileName = Some [],
           stock = Fin 0, sellerId = Some (Fin 0) \<rparr>"
proof -
  have a: "load_effect (initial (Some b)) = Inr \<lparr> cartItems = [], storage = None \<rparr>"
    if "b = BadText
      \<or> (\<exists>j. b = Text j \<and> (not_an_array j \<or> (\<exists>ys. j = JArr ys \<and> JNull \<in> set ys)))"
  proof -
    have "\<exists>e. load_try b = Inl e \<and> b \<noteq> EmptyText"
      using that by (auto simp: load_try_def not_an_array_throws map_sanitize_null)
    then show ?thesis
      by (auto simp: load_effect_def initial_def)
  qed
  have k: "load_effect (initial (Some (Text (JArr xs))))
           = Inr \<lparr> cartItems = map (\<lambda>x. sanitizeCartItem (properties_of x)) xs,
                   storage = Some (Text (JArr xs)) \<rparr>"
    if "JNull \<notin> set xs"
    using map_sanitize_no_null [OF that]
    by (simp add: load_effect_def load_try_def initial_def setCartItems_def)
  have d: "sanitizeCartItem no_properties
       = \<lparr> id' = Fin 0, name = [], price = Fin 0, quantity = Fin 1, fileName = Some [],
           stock = Fin 0, sellerId = Some (Fin 0) \<rparr>"
    by (simp add: sanitizeCartItem_def no_properties_def)
  show ?thesis using a k d by blast
qed

theorem load_effect_malformed_witness:
  "load_effect (initial (Some BadText)) = Inr \<lparr> cartItems = [], storage = None \<rparr>
   \<and> not_an_array (JStr ''abc'')
   \<and> load_effect (initial (Some (Text (JStr ''abc'')))) = Inr \<lparr> cartItems = [], storage = None \<rparr>
   \<and> not_an_array (JObj no_properties)
   \<and> load_effect (initial (Some (Text (JObj no_properties))))
       = Inr \<lparr> cartItems = [], storage = None \<rparr>
   \<and> load_effect (initial (Some (Text (JArr [stringify_item line_2, JNull]))))
       = Inr \<lparr> cartItems = [], storage = None \<rparr>
   \<and> JNull \<notin> set [JNum 5, stringify_item line_2]
   \<and> load_effect (initial (Some (Text (JArr [JNum 5, stringify_item line_2]))))
       = Inr \<lparr> cartItems = [sanitizeCartItem no_properties, line_2],
               storage = Some (Text (JArr [JNum 5, stringify_item line_2])) \<rparr>"
proof -
  note discarded = load_effect_malformed [THEN conjunct1, THEN mp]
  note kept = load_effect_malformed [THEN conjunct2, THEN conjunct1, THEN mp]
  have a: "load_effect (initial (Some BadText)) = Inr \<lparr> cartItems = [], storage = None \<rparr>"
    by (rule discarded) simp
  have b: "load_effect (initial (Some (Text (JStr ''abc''))))
       = Inr \<lparr> cartItems = [], storage = None \<rparr>"
    by (rule discarded) simp
  have c: "load_effect (initial (Some (Text (JObj no_properties))))
       = Inr \<lparr> cartItems = [], storage = None \<rparr>"
    by (rule discarded) simp
  have d: "load_effect (initial (Some (Text (JArr [stringify_item line_2, JNull]))))
       = Inr \<lparr> cartItems = [], storage = None \<rparr>"
    by (rule discarded) simp
  have n: "JNull \<notin> set [JNum 5, stringify_item line_2]"
    by (simp add: stringify_item_def)
  have l: "sanitizeCartItem (properties_of (stringify_item line_2)) = line_2"
    by (simp add: stringify_item_def sanitizeCartItem_def line_2_def)
  have e: "load_effect (initial (Some (Text (JArr [JNum 5, stringify_item line_2]))))
       = Inr \<lparr> cartItems = [sanitizeCartItem no_properties, line_2],
               storage = Some (Text (JArr [JNum 5, stringify_item line_2])) \<rparr>"
    using kept [OF n] l by simp
  show ?thesis
    using a b c d n e by simp
qed

text \<open>
  Claim C5 as stated fails on an array whose elements are not shaped like lines: the blob
  \<^verbatim>\<open>[{}]\<close> is neither discarded nor removed, and the collection holds one line made
  of defaults.
\<close>

theorem load_effect_malformed_counterexample:
  "load_effect (initial (Some (Text (JArr [JObj no_properties]))))
     = Inr \<lparr> cartItems =
               [\<lparr> id' = Fin 0, name = [], price = Fin 0, quantity = Fin 1, fileName = Some [],
                   stock = Fin 0, sellerId = Some (Fin 0) \<rparr>],
             storage = Some (Text (JArr [JObj no_properties])) \<rparr>"
  by (simp add: load_effect_def load_try_def initial_def setCartItems_def sanitizeCartItem_def
      no_properties_def)

section \<open>The coercion of an inserted line\<close>

lemma sanitized_non_numeric:
  assumes "non_numeric v"
  shows "ensureNumber (or_default v (Num (Fin 0))) = Fin 0"
proof (cases v)
  case None
  then show ?thesis by simp
next
  case (Some x)
  with assms show ?thesis by (cases x) (auto simp: isNaN_iff)
qed

lemma sanitized_quantity_non_numeric:
  assumes "non_numeric v"
  shows "ensureNumber (or_default v (Num (Fin 1)))
       = (case v of Some (Str (c # cs)) \<Rightarrow> Fin 0 | _ \<Rightarrow> Fin 1)"
proof (cases v)
  case None
  then show ?thesis by simp
next
  case (Some x)
  with assms show ?thesis by (cases x) (auto simp: isNaN_iff split: list.splits)
qed

text \<open>
  Claim C7, amended. For every \<^verbatim>\<open>addToCart\<close> call on a product that has no line, the
  inserted line is the sanitized product: a price or a stock that is missing, \<^verbatim>\<open>NaN\<close>
  or a string that \<^verbatim>\<open>parseFloat\<close> does not parse becomes 0, and a quantity that is
  \<^verbatim>\<open>NaN\<close> becomes 1. In \<^verbatim>\<open>sanitizeCartItem\<close>, a quantity that holds no number
  becomes 0 when it is a non-empty string and 1 otherwise. The functions have no operation
  that throws on these inputs: they are total.
\<close>

theorem addToCart_coercion:
  assumes "\<forall>item \<in> set (cartItems s). \<not> id_is (p_id product) (id' item)"
  shows "cartItems (addToCart product qa s)
           = cartItems s @ [sanitizeCartItem
               (product \<lparr> p_quantity := Some (Num (case qa of None \<Rightarrow> Fin 1 | Some q \<Rightarrow> q)) \<rparr>)]
    \<and> (non_numeric (p_price product) \<longrightarrow>
          price (last (cartItems (addToCart product qa s))) = Fin 0)
    \<and> (non_numeric (p_stock product) \<longrightarrow>
          stock (last (cartItems (addToCart product qa s))) = Fin 0)
    \<and> (qa = Some NaN \<longrightarrow> quantity (last (cartItems (addToCart product qa s))) = Fin 1)
    \<and> (\<forall>item. non_numeric (p_quantity item) \<longrightarrow>
          quantity (sanitizeCartItem item)
            = (case p_quantity item of Some (Str (c # cs)) \<Rightarrow> Fin 0 | _ \<Rightarrow> Fin 1))"
proof -
  note ins = addToCart_absent [OF assms]
  have p: "non_numeric (p_price product) \<longrightarrow>
          price (last (cartItems (addToCart product qa s))) = Fin 0"
    by (simp add: ins sanitizeCartItem_def sanitized_non_numeric)
  have st: "non_numeric (p_stock product) \<longrightarrow>
          stock (last (cartItems (addToCart product qa s))) = Fin 0"
    by (simp add: ins sanitizeCartItem_def sanitized_non_numeric)
  have q: "qa = Some NaN \<longrightarrow> quantity (last (cartItems (addToCart product qa s))) = Fin 1"
    by (auto simp: ins sanitizeCartItem_def)
  have d: "\<forall>item. non_numeric (p_quantity item) \<longrightarrow>
          quantity (sanitizeCartItem item)
            = (case p_quantity item of Some (Str (c # cs)) \<Rightarrow> Fin 0 | _ \<Rightarrow> Fin 1)"
    by (simp add: sanitizeCartItem_def sanitized_quantity_non_numeric)
  show ?thesis using ins p st q d by blast
qed

theorem addToCart_coercion_witness:
  "non_numeric (Some (Str ''abc'')) \<and> non_numeric (Some (Str []))
   \<and> cartItems (addToCart (product_X \<lparr> p_price := Some (Str ''abc''), p_stock := Some (Str []) \<rparr>)
        (Some NaN) (initial None))
       = [(line_X (Fin 1)) \<lparr> price := Fin 0, stock := Fin 0 \<rparr>]
   \<and> price (last (cartItems
        (addToCart (product_X \<lparr> p_price := Some (Str ''abc''), p_stock := Some (Str []) \<rparr>)
           (Some NaN) (initial None)))) = Fin 0
   \<and> stock (last (cartItems
        (addToCart (product_X \<lparr> p_price := Some (Str ''abc''), p_stock := Some (Str []) \<rparr>)
           (Some NaN) (initial None)))) = Fin 0
   \<and> quantity (last (cartItems
        (addToCart (product_X \<lparr> p_price := Some (Str ''abc''), p_stock := Some (Str []) \<rparr>)
           (Some NaN) (initial None)))) = Fin 1"
proof -
  have h: "\<forall>item \<in> set (cartItems (initial None)).
      \<not> id_is (p_id (product_X \<lparr> p_price := Some (Str ''abc''), p_stock := Some (Str []) \<rparr>))
          (id' item)"
    by (simp add: initial_def)
  have n: "non_numeric (Some (Str ''abc''))" "non_numeric (Some (Str []))"
    by (simp_all add: parseFloat_def unsigned_literal_def is_ws_def is_digit_def)
  have np: "non_numeric (p_price (product_X \<lparr> p_price := Some (Str ''abc''), p_stock := Some (Str []) \<rparr>))"
      "non_numeric (p_stock (product_X \<lparr> p_price := Some (Str ''abc''), p_stock := Some (Str []) \<rparr>))"
    using n by simp_all
  have c: "cartItems (addToCart (product_X \<lparr> p_price := Some (Str ''abc''), p_stock := Some (Str []) \<rparr>)
        (Some NaN) (initial None))
       = [(line_X (Fin 1)) \<lparr> price := Fin 0, stock := Fin 0 \<rparr>]"
    by (simp add: addToCart_def setCartItems_def initial_def sanitizeCartItem_def strict_eq_def Let_def
        product_X_def line_X_def parseFloat_def unsigned_literal_def is_ws_def
        is_digit_def)
  from addToCart_coercion [OF h, of "Some NaN"] np n c show ?thesis
    by blast
qed

text \<open>
  Claim C7 as stated fails on the quantity: \<^verbatim>\<open>item.quantity || 1\<close> replaces a falsy
  quantity by 1, so a new line added with the quantity \<^verbatim>\<open>NaN\<close> has the quantity 1, and
  so has the line that \<^verbatim>\<open>sanitizeCartItem\<close> builds from the empty string as quantity.
\<close>

theorem addToCart_coercion_counterexample:
  "cartItems (addToCart product_X (Some NaN) (initial None)) = [line_X (Fin 1)]
   \<and> quantity (sanitizeCartItem (product_X \<lparr> p_quantity := Some (Str []) \<rparr>)) = Fin 1
   \<and> non_numeric (Some (Str []))"
  by (simp add: addToCart_def setCartItems_def initial_def sanitizeCartItem_def strict_eq_def Let_def
      product_X_def line_X_def parseFloat_def)

section \<open>Saving and loading\<close>

lemma stringify_finite: "finite_num n \<Longrightarrow> stringify_num n = Some (Num n)"
  by (cases n) auto

lemma sanitized_finite:
  "finite_num n \<Longrightarrow> ensureNumber (or_default (Some (Num n)) (Num (Fin 0))) = n"
  by (cases n) auto

lemma sanitized_finite_quantity:
  "finite_num n \<Longrightarrow> n \<noteq> Fin 0 \<Longrightarrow> ensureNumber (or_default (Some (Num n)) (Num (Fin 1))) = n"
  by (cases n) auto

lemma roundtrip_item:
  assumes "persistable item"
  shows "sanitize_element (stringify_item item) = Inr item"
proof -
  obtain f where f: "fileName item = Some f"
    using assms by (auto simp: persistable_def)
  obtain n where n: "sellerId item = Some n" "finite_num n"
    using assms by (auto simp: persistable_def split: option.splits)
  have "sanitizeCartItem
          \<lparr> p_id = Some (Num (id' item)), p_name = Some (name item),
            p_price = Some (Num (price item)), p_quantity = Some (Num (quantity item)),
            p_fileName = Some f, p_stock = Some (Num (stock item)),
            p_sellerId = Some (Num n) \<rparr> = item"
    using assms f n
    by (simp add: sanitizeCartItem_def persistable_def sanitized_finite sanitized_finite_quantity
        del: or_default.simps ensureNumber.simps)
  then show ?thesis
    using assms f n by (simp add: stringify_item_def persistable_def stringify_finite)
qed

lemma roundtrip_items:
  "\<forall>item \<in> set items. persistable item \<Longrightarrow> map_sanitize (map stringify_item items) = Inr items"
  by (induction items) (simp_all add: roundtrip_item)

text \<open>
  Claim C8, amended. For every collection whose lines have all seven fields, finite numbers
  and a quantity other than zero, the load effect on the blob that the save effect wrote
  yields the same collection, field for field, and leaves the blob in place.
\<close>

theorem persistence_roundtrip:
  assumes "\<forall>item \<in> set (cartItems s). persistable item"
  shows "load_effect (initial (storage (save_effect s)))
           = Inr \<lparr> cartItems = cartItems s, storage = Some (JSON_stringify (cartItems s)) \<rparr>"
  using roundtrip_items [OF assms]
  by (simp add: load_effect_def save_effect_def initial_def load_try_def JSON_stringify_def
      setCartItems_def)

theorem persistence_roundtrip_witness:
  "persistable (line_X (Fin 3)) \<and> persistable line_7
   \<and> load_effect (initial (storage (save_effect
        \<lparr> cartItems = [line_X (Fin 3), line_7], storage = None \<rparr>)))
       = Inr \<lparr> cartItems = [line_X (Fin 3), line_7],
               storage = Some (JSON_stringify [line_X (Fin 3), line_7]) \<rparr>"
proof -
  have p: "persistable (line_X (Fin 3))" "persistable line_7"
    by (simp_all add: persistable_def line_X_def line_7_def)
  then have h: "\<forall>item \<in> set (cartItems \<lparr> cartItems = [line_X (Fin 3), line_7], storage = None \<rparr>).
      persistable item"
    by simp
  from persistence_roundtrip [OF h] p show ?thesis
    by simp
qed

text \<open>
  Claim C8 as stated fails on a line with the quantity 0: the load effect reads it back
  with \<^verbatim>\<open>item.quantity || 1\<close>, as 1. Such a line is in the collection after a product
  with the stock 0 was added and \<^verbatim>\<open>updateQuantity\<close> clamped a quantity of 5 to that stock.
\<close>

theorem persistence_roundtrip_counterexample:
  "cartItems (updateQuantity (Fin 1) (Fin 5)
       (addToCart (product_X \<lparr> p_stock := Some (Num (Fin 0)) \<rparr>) None (initial None)))
     = [(line_X (Fin 0)) \<lparr> stock := Fin 0 \<rparr>]
   \<and> load_effect (initial (storage (save_effect
        \<lparr> cartItems = [(line_X (Fin 0)) \<lparr> stock := Fin 0 \<rparr>], storage = None \<rparr>)))
       = Inr \<lparr> cartItems = [(line_X (Fin 1)) \<lparr> stock := Fin 0 \<rparr>],
               storage = Some (JSON_stringify [(line_X (Fin 0)) \<lparr> stock := Fin 0 \<rparr>]) \<rparr>
   \<and> (line_X (Fin 1)) \<lparr> stock := Fin 0 \<rparr> \<noteq> (line_X (Fin 0)) \<lparr> stock := Fin 0 \<rparr>"
  by (simp add: addToCart_def setCartItems_def initial_def sanitizeCartItem_def strict_eq_def Let_def
      updateQuantity_def Math_min_def save_effect_def load_effect_def load_try_def
      JSON_stringify_def stringify_item_def product_X_def line_X_def)

end
